theory Spec2Isabelle
  imports Main
begin

section \<open>Python values used by imap-notify\<close>

text \<open>
  A Python \<open>str\<close> is a sequence of Unicode code points and is modelled as a list of
  natural numbers; \<open>bytes\<close> is a list of 8-bit characters. A string literal of the source
  is written \<open>ascii ''...''\<close>.
\<close>

type_synonym str = "nat list"

type_synonym bytes = "char list"

abbreviation ascii :: "string \<Rightarrow> str" where
  "ascii s \<equiv> map of_char s"

text \<open>Truthiness of an optional string, as in \<^verbatim>\<open>if password:\<close>: \<open>None\<close> and the empty
  string are false.\<close>

fun truthy :: "str option \<Rightarrow> bool" where
  "truthy None = False"
| "truthy (Some s) = (s \<noteq> [])"

text \<open>\<^verbatim>\<open>str.isspace\<close> for one code point: the white space of the Unicode database.\<close>

definition isspace :: "nat \<Rightarrow> bool" where
  "isspace c \<longleftrightarrow>
     (9 \<le> c \<and> c \<le> 13) \<or> (28 \<le> c \<and> c \<le> 32) \<or> c = 133 \<or> c = 160 \<or> c = 5760 \<or>
     (8192 \<le> c \<and> c \<le> 8202) \<or> c = 8232 \<or> c = 8233 \<or> c = 8239 \<or> c = 8287 \<or> c = 12288"

text \<open>\<^verbatim>\<open>str.rstrip()\<close> with no argument removes trailing white space.\<close>

definition rstrip :: "str \<Rightarrow> str" where
  "rstrip s = rev (dropWhile isspace (rev s))"

text \<open>\<^verbatim>\<open>str.lower()\<close> on the ASCII letters. The only use is the comparison of a flag with
  the ASCII words of \<^verbatim>\<open>BOOLEAN_STATES\<close>; no code point outside ASCII lowers to a letter
  of those words, so the ASCII part decides the comparison.\<close>

definition lower :: "str \<Rightarrow> str" where
  "lower s = map (\<lambda>c. if 65 \<le> c \<and> c \<le> 90 then c + 32 else c) s"

subsection \<open>Integers and their decimal text\<close>

text \<open>\<^verbatim>\<open>str(n)\<close> for an integer.\<close>

fun digits_of :: "nat \<Rightarrow> str" where
  "digits_of n = (if n < 10 then [48 + n] else digits_of (n div 10) @ [48 + n mod 10])"

declare digits_of.simps [simp del]

definition py_str :: "int \<Rightarrow> str" where
  "py_str i = (if i < 0 then 45 # digits_of (nat (- i)) else digits_of (nat i))"

text \<open>
  \<^verbatim>\<open>int(s)\<close> in base 10: surrounding white space is removed (the white space of
  \<open>isspace\<close> except the separators \<open>0x1c\<close> to \<open>0x1f\<close>, which \<^verbatim>\<open>int\<close> does not skip),
  then an optional sign, then decimal digits in which single underscores may stand between
  two digits. \<open>None\<close> stands for the \<^verbatim>\<open>ValueError\<close> of a malformed literal. Only the
  ASCII digits are modelled.
\<close>

definition int_space :: "nat \<Rightarrow> bool" where
  "int_space c \<longleftrightarrow> isspace c \<and> \<not> (28 \<le> c \<and> c \<le> 31)"

definition is_digit :: "nat \<Rightarrow> bool" where
  "is_digit c \<longleftrightarrow> 48 \<le> c \<and> c \<le> 57"

fun digits_value :: "nat \<Rightarrow> str \<Rightarrow> nat option" where
  "digits_value acc [] = Some acc"
| "digits_value acc [c] = (if is_digit c then Some (10 * acc + (c - 48)) else None)"
| "digits_value acc (c # d # cs) =
     (if is_digit c then digits_value (10 * acc + (c - 48)) (d # cs)
      else if c = 95 \<and> is_digit d then digits_value (10 * acc + (d - 48)) cs
      else None)"

definition unsigned_value :: "str \<Rightarrow> nat option" where
  "unsigned_value s =
     (case s of [] \<Rightarrow> None
      | c # cs \<Rightarrow> if is_digit c then digits_value (c - 48) cs else None)"

definition py_int :: "str \<Rightarrow> int option" where
  "py_int s =
     (case rev (dropWhile int_space (rev (dropWhile int_space s))) of
        [] \<Rightarrow> None
      | c # cs \<Rightarrow>
          if c = 45 then map_option (\<lambda>n. - int n) (unsigned_value cs)
          else if c = 43 then map_option int (unsigned_value cs)
          else map_option int (unsigned_value (c # cs)))"

section \<open>Exceptions\<close>

text \<open>
  An exception is its class and its message. \<open>mro\<close> lists a class with its base classes
  below \<^verbatim>\<open>Exception\<close>, so that \<open>isinstance\<close> decides an \<^verbatim>\<open>except\<close> clause as Python
  does. \<open>ImapError\<close> and \<open>ConfigError\<close> are the program's own; the others are raised by the
  interpreter, by \<^verbatim>\<open>configparser\<close>, by the socket layer and by \<^verbatim>\<open>imaplib\<close>.
\<close>

datatype exn_class =
    Exception
  | ImapError
  | ConfigError
  | ValueError
  | UnicodeDecodeError
  | NameError
  | UnboundLocalError
  | OSError
  | ConnectionError
  | ConnectionRefusedError
  | TimeoutError
  | gaierror
  | SSLError
  | IMAP4_error
  | IMAP4_abort

fun mro :: "exn_class \<Rightarrow> exn_class list" where
  "mro Exception = [Exception]"
| "mro ImapError = [ImapError, Exception]"
| "mro ConfigError = [ConfigError, ImapError, Exception]"
| "mro ValueError = [ValueError, Exception]"
| "mro UnicodeDecodeError = [UnicodeDecodeError, ValueError, Exception]"
| "mro NameError = [NameError, Exception]"
| "mro UnboundLocalError = [UnboundLocalError, NameError, Exception]"
| "mro OSError = [OSError, Exception]"
| "mro ConnectionError = [ConnectionError, OSError, Exception]"
| "mro ConnectionRefusedError = [ConnectionRefusedError, ConnectionError, OSError, Exception]"
| "mro TimeoutError = [TimeoutError, OSError, Exception]"
| "mro gaierror = [gaierror, OSError, Exception]"
| "mro SSLError = [SSLError, OSError, Exception]"
| "mro IMAP4_error = [IMAP4_error, Exception]"
| "mro IMAP4_abort = [IMAP4_abort, IMAP4_error, Exception]"

datatype exn = Exn (cls: exn_class) (msg: str)

definition isinstance :: "exn \<Rightarrow> exn_class \<Rightarrow> bool" where
  "isinstance e c \<longleftrightarrow> c \<in> set (mro (cls e))"

section \<open>The configuration section\<close>

text \<open>
  A \<^verbatim>\<open>SectionProxy\<close> is read through \<^verbatim>\<open>get\<close> and \<^verbatim>\<open>getboolean\<close> only, so it is the
  map from an option's name to its (interpolated) value. \<^verbatim>\<open>get(key, fallback)\<close> is a
  lookup with a default; \<^verbatim>\<open>getboolean\<close> returns the fallback for a missing option and
  otherwise converts the lowered value through \<^verbatim>\<open>BOOLEAN_STATES\<close>, raising
  \<^verbatim>\<open>ValueError\<close> for any other text.
\<close>

type_synonym SectionProxy = "string \<rightharpoonup> str"

definition getboolean :: "SectionProxy \<Rightarrow> string \<Rightarrow> bool \<Rightarrow> exn + bool" where
  "getboolean sec key fallback =
     (case sec key of
        None \<Rightarrow> Inr fallback
      | Some v \<Rightarrow>
          if lower v \<in> set [ascii ''1'', ascii ''yes'', ascii ''true'', ascii ''on''] then Inr True
          else if lower v \<in> set [ascii ''0'', ascii ''no'', ascii ''false'', ascii ''off'']
          then Inr False
          else Inl (Exn ValueError (ascii ''Not a boolean: '' @ v)))"

subsection \<open>get_port\<close>

text \<open>
  The body of the \<^verbatim>\<open>try\<close> returns the local \<^verbatim>\<open>port\<close> (unassigned when \<^verbatim>\<open>int\<close> raised)
  together with its outcome. The handler catches \<^verbatim>\<open>ValueError\<close> only, and its f-string
  reads \<^verbatim>\<open>port\<close>: reading an unassigned local raises \<^verbatim>\<open>UnboundLocalError\<close> (with the
  message of CPython 3.11 and later). \<^verbatim>\<open>port not in range(1, 65535)\<close> is
  \<open>\<not> (1 \<le> port \<and> port < 65535)\<close>.
\<close>

definition get_port_try :: "str \<Rightarrow> int option \<times> (exn + int)" where
  "get_port_try raw_port =
     (case py_int raw_port of
        None \<Rightarrow> (None, Inl (Exn ValueError (ascii ''invalid literal for int() with base 10'')))
      | Some p \<Rightarrow>
          (Some p,
           if \<not> (1 \<le> p \<and> p < 65535)
           then Inl (Exn ImapError (ascii ''Imap port is out of range (1-65535): '' @ py_str p))
           else Inr p))"

definition get_port :: "SectionProxy \<Rightarrow> int \<Rightarrow> exn + int" where
  "get_port sec default_port =
     (let raw_port = (case sec ''port'' of Some v \<Rightarrow> v | None \<Rightarrow> py_str default_port) in
      case get_port_try raw_port of
        (_, Inr p) \<Rightarrow> Inr p
      | (local_port, Inl err) \<Rightarrow>
          if isinstance err ValueError then
            (case local_port of
               None \<Rightarrow>
                 Inl (Exn UnboundLocalError
                   (ascii ''cannot access local variable 'port' where it is not associated with a value''))
             | Some p \<Rightarrow>
                 Inl (Exn ImapError
                   (ascii ''Imap port is not a valid: '' @ py_str p @ ascii '': '' @ msg err)))
          else Inl err)"

subsection \<open>get_password\<close>

text \<open>
  \<^verbatim>\<open>bytes.decode("utf-8")\<close>, strict: \<open>None\<close> stands for \<^verbatim>\<open>UnicodeDecodeError\<close> (a
  stray or missing continuation byte, an overlong form, a surrogate, a code point above
  \<open>0x10FFFF\<close>).
\<close>

definition continuation :: "nat \<Rightarrow> bool" where
  "continuation b \<longleftrightarrow> 128 \<le> b \<and> b \<le> 191"

fun utf8_decode :: "nat list \<Rightarrow> str option" where
  "utf8_decode [] = Some []"
| "utf8_decode (b # bs) =
     (if b < 128 then map_option ((#) b) (utf8_decode bs)
      else if 194 \<le> b \<and> b \<le> 223 then
        (case bs of
           b1 # r \<Rightarrow>
             if continuation b1
             then map_option ((#) ((b - 192) * 64 + (b1 - 128))) (utf8_decode r)
             else None
         | _ \<Rightarrow> None)
      else if 224 \<le> b \<and> b \<le> 239 then
        (case bs of
           b1 # b2 # r \<Rightarrow>
             (let cp = (b - 224) * 4096 + (b1 - 128) * 64 + (b2 - 128) in
              if continuation b1 \<and> continuation b2 \<and> 2048 \<le> cp \<and> \<not> (55296 \<le> cp \<and> cp \<le> 57343)
              then map_option ((#) cp) (utf8_decode r)
              else None)
         | _ \<Rightarrow> None)
      else if 240 \<le> b \<and> b \<le> 244 then
        (case bs of
           b1 # b2 # b3 # r \<Rightarrow>
             (let cp = (b - 240) * 262144 + (b1 - 128) * 4096 + (b2 - 128) * 64 + (b3 - 128) in
              if continuation b1 \<and> continuation b2 \<and> continuation b3 \<and> 65536 \<le> cp \<and> cp \<le> 1114111
              then map_option ((#) cp) (utf8_decode r)
              else None)
         | _ \<Rightarrow> None)
      else None)"

definition decode :: "bytes \<Rightarrow> str option" where
  "decode bs = utf8_decode (map of_char bs)"

text \<open>What \<^verbatim>\<open>subprocess.run(cmd, capture_output=True, shell=True)\<close> returns; the run itself
  is the environment's, given as a function of the command line.\<close>

record CompletedProcess =
  returncode :: int
  stdout :: bytes

text \<open>
  \<^verbatim>\<open>password\<close> and \<^verbatim>\<open>password_cmd\<close> are optional strings tested for truthiness; \<open>the\<close> is
  applied to them only under a test that they are true, hence present.
\<close>

definition get_password :: "(str \<Rightarrow> CompletedProcess) \<Rightarrow> SectionProxy \<Rightarrow> exn + str" where
  "get_password subprocess_run sec =
     (let password = sec ''password'';
          password_cmd = sec ''password_command'' in
      if truthy password \<and> truthy password_cmd then
        Inl (Exn ConfigError (ascii ''password or password_command are mutually exclusive''))
      else if truthy password_cmd then
        (let process = subprocess_run (the password_cmd) in
         if returncode process \<noteq> 0 then
           Inl (Exn ConfigError
             (ascii ''Password command '' @ [39] @ the password_cmd @ [39] @
              ascii '' exited with '' @ py_str (returncode process)))
         else
           (case decode (stdout process) of
              None \<Rightarrow> Inl (Exn UnicodeDecodeError [])
            | Some out \<Rightarrow> Inr (rstrip out)))
      else if \<not> truthy password then
        Inl (Exn ConfigError (ascii ''No imap password or password_command set''))
      else Inr (the password))"

subsection \<open>get_encryption\<close>

datatype Encryption = NONE | IMAPS | STARTTLS

definition get_encryption :: "SectionProxy \<Rightarrow> exn + Encryption" where
  "get_encryption sec =
     (case getboolean sec ''imaps'' False of
        Inl e \<Rightarrow> Inl e
      | Inr imaps \<Rightarrow>
          (case getboolean sec ''starttls'' (\<not> imaps) of
             Inl e \<Rightarrow> Inl e
           | Inr starttls \<Rightarrow>
               if starttls \<and> imaps then
                 Inl (Exn ImapError (ascii ''You cannot enable both starttls and imaps''))
               else if imaps then Inr IMAPS
               else if starttls then Inr STARTTLS
               else Inr NONE))"

subsection \<open>read_configuration\<close>

record Configuration =
  host :: str
  port :: int
  username :: str
  password :: str
  encryption :: Encryption
  debug :: bool

text \<open>
  \<^verbatim>\<open>parser.read(path)\<close> leaves the sections of the file in the parser (none when the file
  is missing); the parser after the read is the map from a section's name to the section.
  The arguments of the \<^verbatim>\<open>Configuration\<close> constructor are evaluated in the order written:
  port, password, debug. \<^verbatim>\<open>host\<close> and \<^verbatim>\<open>username\<close> have passed their truthiness test
  when \<open>the\<close> reads them.
\<close>

type_synonym ConfigParser = "string \<rightharpoonup> SectionProxy"

definition read_configuration ::
  "(str \<Rightarrow> CompletedProcess) \<Rightarrow> ConfigParser \<Rightarrow> exn + Configuration" where
  "read_configuration subprocess_run parser =
     (case parser ''imap'' of
        None \<Rightarrow> Inl (Exn ConfigError (ascii ''No imap section found''))
      | Some imap \<Rightarrow>
          if \<not> truthy (imap ''host'') then Inl (Exn ConfigError (ascii ''No imap host set''))
          else if \<not> truthy (imap ''username'') then
            Inl (Exn ConfigError (ascii ''No imap username set''))
          else
            (case get_encryption imap of
               Inl e \<Rightarrow> Inl e
             | Inr enc \<Rightarrow>
                 (case get_port imap (if enc = IMAPS then 993 else 143) of
                    Inl e \<Rightarrow> Inl e
                  | Inr prt \<Rightarrow>
                      (case get_password subprocess_run imap of
                         Inl e \<Rightarrow> Inl e
                       | Inr pw \<Rightarrow>
                           (case getboolean imap ''debug'' False of
                              Inl e \<Rightarrow> Inl e
                            | Inr dbg \<Rightarrow>
                                Inr \<lparr>host = the (imap ''host''), port = prt,
                                     username = the (imap ''username''), password = pw,
                                     encryption = enc, debug = dbg\<rparr>)))))"

section \<open>Connecting and waiting\<close>

text \<open>
  The mail server and the network are the environment. One \<open>Attempt\<close> holds what the
  environment answers during one iteration of the retry loop: the exception, if any, that
  opening the connection, \<^verbatim>\<open>starttls\<close>, \<^verbatim>\<open>login\<close> and the \<^verbatim>\<open>NOTIFY SET\<close> command
  raise, the socket of the opened connection, and the list of readable sockets that
  \<^verbatim>\<open>select\<close> returns (empty when the timeout elapsed). What the program does to the
  outside is recorded as a list of events.
\<close>

datatype imapclass = IMAP4 | IMAP4_SSL

datatype event =
    Sleep int
  | Open imapclass str int
  | Set_debug int
  | Starttls
  | Login str str
  | Command str str
  | Select "nat list" int
  | Print_stdout str
  | Print_stderr str

record Attempt =
  open_error :: "exn option"
  starttls_error :: "exn option"
  login_error :: "exn option"
  command_error :: "exn option"
  client_socket :: nat
  select_result :: "nat list"

definition connect :: "Configuration \<Rightarrow> Attempt \<Rightarrow> event list \<times> (exn + unit)" where
  "connect config a =
     (let imapcls = (if encryption config \<noteq> IMAPS then IMAP4 else IMAP4_SSL);
          ev1 = [Open imapcls (host config) (port config)] in
      case open_error a of
        Some e \<Rightarrow> (ev1, Inl e)
      | None \<Rightarrow>
          (let ev2 = ev1 @ [Set_debug (if debug config then 4 else 0)];
               ev3 = (if encryption config = STARTTLS then ev2 @ [Starttls] else ev2) in
           case (if encryption config = STARTTLS then starttls_error a else None) of
             Some e \<Rightarrow> (ev3, Inl e)
           | None \<Rightarrow>
               (let ev4 = ev3 @ [Login (username config) (password config)] in
                case login_error a of
                  Some e \<Rightarrow> (ev4, Inl e)
                | None \<Rightarrow> (ev4, Inr ()))))"

subsection \<open>wait_for_change\<close>

text \<open>
  The state of the loop is the local \<^verbatim>\<open>backoff\<close> and the events so far. One iteration
  ends in \<^verbatim>\<open>continue\<close> (\<open>Looping\<close>), in \<^verbatim>\<open>break\<close> (\<open>Returned\<close>) or in an exception that
  leaves the function (\<open>Raised\<close>). The loop has no bound of its own: it runs for as long as
  connecting fails with an \<^verbatim>\<open>OSError\<close>. \<open>wait_loop\<close> runs it against the list of the
  environment's answers, one per iteration, and is \<open>Looping\<close> when that list is used up
  before the loop has ended.
\<close>

record loop_state =
  backoff :: int
  trace :: "event list"

datatype status = Looping | Returned | Raised exn

definition say :: "event \<Rightarrow> loop_state \<Rightarrow> loop_state" where
  "say ev s = s\<lparr>trace := trace s @ [ev]\<rparr>"

definition loop_body :: "Configuration \<Rightarrow> Attempt \<Rightarrow> loop_state \<Rightarrow> status \<times> loop_state" where
  "loop_body config a s =
     (let s1 = say (Sleep (backoff s)) s in
      case connect config a of
        (evs, Inl err) \<Rightarrow>
          (let s2 = s1\<lparr>trace := trace s1 @ evs\<rparr> in
           if isinstance err OSError then
             (let s3 = s2\<lparr>backoff := min 120 (2 * max 1 (backoff s2))\<rparr> in
              (Looping,
               say (Print_stderr
                 (ascii ''Could not connect to server: '' @ msg err @ ascii ''. Retry in '' @
                  py_str (backoff s3) @ ascii '' sec'')) s3))
           else (Raised err, s2))
      | (evs, Inr client) \<Rightarrow>
          (let s2 = s1\<lparr>trace := trace s1 @ evs\<rparr>;
               s3 = s2\<lparr>backoff := 0\<rparr>;
               s4 = say (Print_stdout (ascii ''connected'')) s3;
               s5 = say (Command (ascii ''NOTIFY SET'')
                      (ascii ''(subscribed (FlagChange SubscriptionChange MessageNew MessageExpunge))''))
                      s4 in
           case command_error a of
             Some e \<Rightarrow> (Raised e, s5)
           | None \<Rightarrow>
               (let rlist = select_result a;
                    s6 = say (Select [client_socket a] (60 * 15)) s5 in
                if length rlist \<noteq> 0 then (Returned, say (Print_stdout (ascii ''Got change'')) s6)
                else (Returned, say (Print_stdout (ascii ''Timeout'')) s6))))"

fun wait_loop :: "Configuration \<Rightarrow> Attempt list \<Rightarrow> loop_state \<Rightarrow> status \<times> loop_state" where
  "wait_loop config [] s = (Looping, s)"
| "wait_loop config (a # world) s =
     (case loop_body config a s of
        (Looping, s') \<Rightarrow> wait_loop config world s'
      | (Returned, s') \<Rightarrow> (Returned, s')
      | (Raised e, s') \<Rightarrow> (Raised e, s'))"

definition wait_for_change :: "Configuration \<Rightarrow> Attempt list \<Rightarrow> status \<times> loop_state" where
  "wait_for_change config world = wait_loop config world \<lparr>backoff = 0, trace = []\<rparr>"

section \<open>main\<close>

text \<open>
  \<^verbatim>\<open>os.path.join\<close> on POSIX for two components, and the program's environment: the
  argument vector, the variable \<^verbatim>\<open>XDG_CONFIG_HOME\<close>, the expansion of \<^verbatim>\<open>~/.config\<close>, the
  configuration files by path, the password command's runs and the server's answers.
  A process ends with an exit code (0 when \<^verbatim>\<open>main\<close> returns), or with an exception that
  nothing caught (the interpreter then prints the traceback on standard error and exits
  with code 1), or is still in its retry loop. The entry that \<^verbatim>\<open>main\<close> adds to
  \<^verbatim>\<open>imaplib.Commands\<close> lets \<^verbatim>\<open>_simple_command\<close> send \<^verbatim>\<open>NOTIFY SET\<close>; it leaves no event.
\<close>

definition path_join :: "str \<Rightarrow> str \<Rightarrow> str" where
  "path_join a b =
     (if b \<noteq> [] \<and> hd b = 47 then b
      else if a = [] \<or> last a = 47 then a @ b
      else a @ [47] @ b)"

record Environment =
  argv :: "str list"
  xdg_config_home :: "str option"
  expanded_dot_config :: str
  config_files :: "str \<Rightarrow> ConfigParser"
  subprocess_run :: "str \<Rightarrow> CompletedProcess"
  attempts :: "Attempt list"

datatype exit_status = Exit int | Uncaught exn | Still_retrying

definition config_path :: "Environment \<Rightarrow> str" where
  "config_path env =
     (if length (argv env) > 1 then argv env ! 1
      else
        (let config_home =
               (case xdg_config_home env of Some v \<Rightarrow> v | None \<Rightarrow> expanded_dot_config env) in
         path_join (path_join config_home (ascii ''imap-notify'')) (ascii ''imap-notify.ini'')))"

definition main :: "Environment \<Rightarrow> exit_status \<times> event list" where
  "main env =
     (let config_file = config_path env in
      case read_configuration (subprocess_run env) (config_files env config_file) of
        Inl e \<Rightarrow>
          if isinstance e ConfigError then
            (Exit 1, [Print_stdout (ascii ''Error reading configuration: '' @ msg e)])
          else (Uncaught e, [])
      | Inr config \<Rightarrow>
          (case wait_for_change config (attempts env) of
             (Returned, s) \<Rightarrow> (Exit 0, trace s)
           | (Raised e, s) \<Rightarrow> (Uncaught e, trace s)
           | (Looping, s) \<Rightarrow> (Still_retrying, trace s)))"

section \<open>Observations on a run\<close>

text \<open>What reached standard output and standard error, in order; the sleeps and the
  connection attempts, in order; the calls of \<^verbatim>\<open>select\<close>.\<close>

fun stdout_of :: "event list \<Rightarrow> str list" where
  "stdout_of [] = []"
| "stdout_of (Print_stdout m # evs) = m # stdout_of evs"
| "stdout_of (_ # evs) = stdout_of evs"

fun stderr_of :: "event list \<Rightarrow> str list" where
  "stderr_of [] = []"
| "stderr_of (Print_stderr m # evs) = m # stderr_of evs"
| "stderr_of (_ # evs) = stderr_of evs"

fun is_timing :: "event \<Rightarrow> bool" where
  "is_timing (Sleep _) = True"
| "is_timing (Open _ _ _) = True"
| "is_timing _ = False"

definition timing_of :: "event list \<Rightarrow> event list" where
  "timing_of evs = filter is_timing evs"

fun is_select :: "event \<Rightarrow> bool" where
  "is_select (Select _ _) = True"
| "is_select _ = False"

text \<open>The class that \<^verbatim>\<open>connect\<close> instantiates for a configuration.\<close>

definition imapclass_of :: "Configuration \<Rightarrow> imapclass" where
  "imapclass_of config = (if encryption config \<noteq> IMAPS then IMAP4 else IMAP4_SSL)"

text \<open>
  The backoff sequence as the specification words it, to be compared with what the loop
  computes: 0 at first, then 2, 4, 8, ... doubling, capped at 120.
\<close>

definition spec_backoff :: "nat \<Rightarrow> int" where
  "spec_backoff k = (if k = 0 then 0 else min 120 (2 ^ k))"

section \<open>Example inputs\<close>

text \<open>A section with a host, a user and a literal password and nothing else; a password
  command that prints the secret and a newline, every other command failing with exit
  code 127; a server that accepts, refuses the connection, rejects the credentials, or
  accepts and then stays silent until the timeout.\<close>

definition example_section :: SectionProxy where
  "example_section =
     [''host'' \<mapsto> ascii ''mail.example.com'', ''username'' \<mapsto> ascii ''alice'',
      ''password'' \<mapsto> ascii ''secret'']"

definition pass_show :: "str \<Rightarrow> CompletedProcess" where
  "pass_show cmd =
     (if cmd = ascii ''pass show mail''
      then \<lparr>returncode = 0, stdout = ''secret'' @ [CHR 0x0A]\<rparr>
      else \<lparr>returncode = 127, stdout = []\<rparr>)"

definition example_config :: Configuration where
  "example_config =
     \<lparr>host = ascii ''mail.example.com'', port = 143, username = ascii ''alice'',
      password = ascii ''secret'', encryption = STARTTLS, debug = False\<rparr>"

definition accepted :: Attempt where
  "accepted =
     \<lparr>open_error = None, starttls_error = None, login_error = None, command_error = None,
      client_socket = 3, select_result = [3]\<rparr>"

definition refused :: Attempt where
  "refused = accepted\<lparr>open_error :=
     Some (Exn ConnectionRefusedError (ascii ''[Errno 111] Connection refused''))\<rparr>"

definition rejected :: Attempt where
  "rejected = accepted\<lparr>login_error :=
     Some (Exn IMAP4_error (ascii ''[AUTHENTICATIONFAILED] Authentication failed.''))\<rparr>"

definition quiet :: Attempt where
  "quiet = accepted\<lparr>select_result := []\<rparr>"

definition example_env :: "ConfigParser \<Rightarrow> Attempt list \<Rightarrow> Environment" where
  "example_env parser world =
     \<lparr>argv = [ascii ''imap-notify'', ascii ''/etc/imap-notify.ini''], xdg_config_home = None,
      expanded_dot_config = ascii ''/root/.config'', config_files = (\<lambda>path. parser),
      subprocess_run = pass_show, attempts = world\<rparr>"

section \<open>Decimal text: \<open>int\<close> inverts \<open>str\<close>\<close>

lemma digits_of_all_digits: "list_all is_digit (digits_of n)"
proof (induction n rule: digits_of.induct)
  case (1 n)
  show ?case
  proof (cases "n < 10")
    case True
    then show ?thesis by (subst digits_of.simps) (simp add: is_digit_def)
  next
    case False
    have "n mod 10 < 10" by simp
    then have "is_digit (48 + n mod 10)" unfolding is_digit_def by linarith
    with False 1 show ?thesis by (subst digits_of.simps) simp
  qed
qed

lemma digits_of_not_Nil: "digits_of n \<noteq> []"
  by (subst digits_of.simps) simp

lemma digits_value_all_digits:
  "list_all is_digit ds \<Longrightarrow>
   digits_value acc ds = Some (foldl (\<lambda>a c. 10 * a + (c - 48)) acc ds)"
  by (induction acc ds rule: digits_value.induct) simp_all

lemma foldl_digits_of: "foldl (\<lambda>a c. 10 * a + (c - 48)) 0 (digits_of n) = n"
proof (induction n rule: digits_of.induct)
  case (1 n)
  show ?case
  proof (cases "n < 10")
    case True
    then show ?thesis by (subst digits_of.simps) simp
  next
    case False
    with 1 show ?thesis by (subst digits_of.simps) simp
  qed
qed

lemma unsigned_value_digits_of: "unsigned_value (digits_of n) = Some n"
proof -
  obtain c cs where cs: "digits_of n = c # cs"
    using digits_of_not_Nil by (cases "digits_of n") auto
  have all: "list_all is_digit (c # cs)"
    using digits_of_all_digits [of n] by (simp add: cs)
  have "foldl (\<lambda>a c. 10 * a + (c - 48)) 0 (c # cs) = n"
    using foldl_digits_of [of n] by (simp add: cs)
  then show ?thesis
    using all by (simp add: unsigned_value_def cs digits_value_all_digits)
qed

lemma strip_unchanged:
  assumes "s \<noteq> []" "\<not> int_space (hd s)" "\<not> int_space (last s)"
  shows "rev (dropWhile int_space (rev (dropWhile int_space s))) = s"
proof -
  from assms have 1: "dropWhile int_space s = s" by (cases s) auto
  from assms have "rev s \<noteq> []" "\<not> int_space (hd (rev s))" by (auto simp: hd_rev)
  then have "dropWhile int_space (rev s) = rev s" by (cases "rev s") auto
  with 1 show ?thesis by simp
qed

lemma is_digit_not_space: "is_digit c \<Longrightarrow> \<not> int_space c"
  by (auto simp: is_digit_def int_space_def isspace_def)

lemma digits_of_hd: "is_digit (hd (digits_of n))"
  using digits_of_all_digits [of n] digits_of_not_Nil [of n] by (cases "digits_of n") auto

lemma digits_of_last: "is_digit (last (digits_of n))"
  using digits_of_all_digits [of n] digits_of_not_Nil [of n]
  by (simp add: list_all_iff)

lemma py_int_py_str: "py_int (py_str p) = Some p"
proof (cases "p < 0")
  case True
  let ?s = "45 # digits_of (nat (- p))"
  have "rev (dropWhile int_space (rev (dropWhile int_space ?s))) = ?s"
    by (rule strip_unchanged)
       (use digits_of_not_Nil digits_of_last is_digit_not_space in
         \<open>auto simp: int_space_def isspace_def\<close>)
  with True show ?thesis
    by (simp add: py_int_def py_str_def unsigned_value_digits_of)
next
  case False
  let ?s = "digits_of (nat p)"
  obtain c cs where cs: "?s = c # cs"
    using digits_of_not_Nil by (cases ?s) auto
  have d: "is_digit c" using digits_of_hd [of "nat p"] by (simp add: cs)
  have "rev (dropWhile int_space (rev (dropWhile int_space ?s))) = ?s"
    by (rule strip_unchanged)
       (use digits_of_not_Nil digits_of_hd digits_of_last is_digit_not_space in auto)
  then have "rev (dropWhile int_space (rev (dropWhile int_space ?s))) = c # cs"
    by (simp add: cs)
  moreover have "unsigned_value (c # cs) = Some (nat p)"
    using unsigned_value_digits_of [of "nat p"] by (simp add: cs)
  moreover have "c \<noteq> 45" "c \<noteq> 43" using d by (auto simp: is_digit_def)
  ultimately show ?thesis using False
    by (simp add: py_int_def py_str_def)
qed

section \<open>Port resolution\<close>

text \<open>Whatever text the option holds, once \<^verbatim>\<open>int\<close> reads it as \<open>p\<close> the outcome depends on
  \<open>p\<close> alone; a text that \<^verbatim>\<open>int\<close> rejects ends in \<^verbatim>\<open>UnboundLocalError\<close>.\<close>

lemma get_port_parsed:
  assumes "sec ''port'' = Some raw" "py_int raw = Some p"
  shows "get_port sec d =
    (if 1 \<le> p \<and> p \<le> 65534 then Inr p
     else Inl (Exn ImapError (ascii ''Imap port is out of range (1-65535): '' @ py_str p)))"
  using assms by (simp add: get_port_def get_port_try_def isinstance_def)

lemma get_port_unparsable:
  assumes "sec ''port'' = Some raw" "py_int raw = None"
  shows "\<exists>m. get_port sec d = Inl (Exn UnboundLocalError m)"
  using assms by (simp add: get_port_def get_port_try_def isinstance_def)

lemma get_port_boundaries:
  "get_port [''port'' \<mapsto> ascii ''0''] 143 =
     Inl (Exn ImapError (ascii ''Imap port is out of range (1-65535): 0''))"
  "get_port [''port'' \<mapsto> ascii ''1''] 143 = Inr 1"
  "get_port [''port'' \<mapsto> ascii ''65534''] 143 = Inr 65534"
  "get_port [''port'' \<mapsto> ascii ''65535''] 143 =
     Inl (Exn ImapError (ascii ''Imap port is out of range (1-65535): 65535''))"
  "get_port [''port'' \<mapsto> ascii '' +8_0 ''] 143 = Inr 80"
  by (simp_all add: get_port_def get_port_try_def py_int_def unsigned_value_def is_digit_def
      int_space_def isspace_def py_str_def digits_of.simps isinstance_def)

text \<open>
  Claim C4. For every configured integer port value \<open>p\<close> (written in the option as its
  decimal text), whatever the rest of the section and the default port, port resolution
  succeeds exactly when \<open>1 \<le> p \<le> 65534\<close>, and then returns \<open>p\<close>; every other value,
  0 and 65535 among them, fails with the out-of-range \<^verbatim>\<open>ImapError\<close>.
\<close>

theorem get_port_succeeds_iff_in_range:
  "get_port (sec(''port'' \<mapsto> py_str p)) d =
    (if 1 \<le> p \<and> p \<le> 65534 then Inr p
     else Inl (Exn ImapError (ascii ''Imap port is out of range (1-65535): '' @ py_str p)))"
  by (rule get_port_parsed [where raw = "py_str p"]) (simp_all add: py_int_py_str)

text \<open>
  Claim C5. A port that is not an integer, here \<^verbatim>\<open>port = abc\<close>, does not fail with an
  \<^verbatim>\<open>ImapError\<close>: the handler that would raise it formats the local \<^verbatim>\<open>port\<close>, which was
  never assigned, and the function leaves with \<^verbatim>\<open>UnboundLocalError\<close>, which is neither an
  \<^verbatim>\<open>ImapError\<close> nor a \<^verbatim>\<open>ConfigError\<close>.
\<close>

theorem get_port_not_an_integer:
  "get_port [''port'' \<mapsto> ascii ''abc''] 143 =
     Inl (Exn UnboundLocalError
       (ascii ''cannot access local variable 'port' where it is not associated with a value''))
   \<and> \<not> isinstance (Exn UnboundLocalError
       (ascii ''cannot access local variable 'port' where it is not associated with a value''))
       ImapError"
  by (simp add: get_port_def get_port_try_def py_int_def unsigned_value_def is_digit_def
      int_space_def isspace_def isinstance_def)

lemma get_port_default:
  "sec ''port'' = None \<Longrightarrow> 1 \<le> d \<Longrightarrow> d \<le> 65534 \<Longrightarrow> get_port sec d = Inr d"
  by (simp add: get_port_def get_port_try_def py_int_py_str)

lemma example_plain:
  "read_configuration pass_show [''imap'' \<mapsto> example_section] = Inr example_config"
  by (simp add: read_configuration_def example_section_def example_config_def
      get_encryption_def getboolean_def get_port_default get_password_def)

lemma example_imaps:
  "read_configuration pass_show [''imap'' \<mapsto> example_section(''imaps'' \<mapsto> ascii ''true'')] =
     Inr (example_config\<lparr>port := 993, encryption := IMAPS\<rparr>)"
  by (simp add: read_configuration_def example_section_def example_config_def
      get_encryption_def getboolean_def lower_def get_port_default get_password_def)

text \<open>
  Claim C9. When the section has no \<^verbatim>\<open>port\<close> option, a configuration that
  \<^verbatim>\<open>read_configuration\<close> returns has port 993 if its encryption is \<^verbatim>\<open>IMAPS\<close> (implicit
  TLS) and port 143 if it is \<^verbatim>\<open>STARTTLS\<close> or \<^verbatim>\<open>NONE\<close>; port resolution itself succeeds
  with either default.
\<close>

theorem default_port_by_encryption:
  assumes "parser ''imap'' = Some imap" and "imap ''port'' = None"
    and "read_configuration run parser = Inr config"
  shows "port config = (if encryption config = IMAPS then 993 else 143)
    \<and> get_port imap 993 = Inr 993 \<and> get_port imap 143 = Inr 143"
proof -
  have p: "get_port imap 993 = Inr 993" "get_port imap 143 = Inr 143"
    using assms(2) by (simp_all add: get_port_default)
  from assms(1,3) p have "port config = (if encryption config = IMAPS then 993 else 143)"
    by (auto simp: read_configuration_def split: if_splits sum.splits)
  with p show ?thesis by simp
qed

theorem default_port_by_encryption_witness:
  "(\<exists>config. read_configuration pass_show [''imap'' \<mapsto> example_section] = Inr config
       \<and> encryption config = STARTTLS \<and> port config = 143)
   \<and> (\<exists>config. read_configuration pass_show
         [''imap'' \<mapsto> example_section(''imaps'' \<mapsto> ascii ''true'')] = Inr config
       \<and> encryption config = IMAPS \<and> port config = 993)
   \<and> get_port example_section 993 = Inr 993 \<and> get_port example_section 143 = Inr 143"
proof -
  have a: "[''imap'' \<mapsto> example_section] ''imap'' = Some example_section" by simp
  have b: "example_section ''port'' = None" by (simp add: example_section_def)
  have c: "[''imap'' \<mapsto> example_section(''imaps'' \<mapsto> ascii ''true'')] ''imap'' =
      Some (example_section(''imaps'' \<mapsto> ascii ''true''))" by simp
  have d: "(example_section(''imaps'' \<mapsto> ascii ''true'')) ''port'' = None"
    by (simp add: example_section_def)
  have 1: "port example_config = 143" "encryption example_config = STARTTLS"
    using default_port_by_encryption [OF a b example_plain] by (simp_all add: example_config_def)
  have 2: "port (example_config\<lparr>port := 993, encryption := IMAPS\<rparr>) = 993"
    using default_port_by_encryption [OF c d example_imaps] by simp
  have 3: "get_port example_section 993 = Inr 993 \<and> get_port example_section 143 = Inr 143"
    using default_port_by_encryption [OF a b example_plain] by simp
  show ?thesis
    using 1 2 3 example_plain example_imaps by simp
qed

section \<open>Encryption resolution\<close>

text \<open>
  Claim C3. Encryption resolution reads the flag \<^verbatim>\<open>imaps\<close> with default false and the
  flag \<^verbatim>\<open>starttls\<close> with the negation of \<^verbatim>\<open>imaps\<close> as default. Whenever the two flags
  resolve to booleans: if both are true it fails with \<^verbatim>\<open>ImapError\<close>; otherwise it returns
  exactly one mode, \<^verbatim>\<open>IMAPS\<close> if \<^verbatim>\<open>imaps\<close> is true, else \<^verbatim>\<open>STARTTLS\<close> if \<^verbatim>\<open>starttls\<close> is
  true, else \<^verbatim>\<open>NONE\<close>.
\<close>

theorem get_encryption_resolution:
  assumes "getboolean sec ''imaps'' False = Inr imaps"
    and "getboolean sec ''starttls'' (\<not> imaps) = Inr starttls"
  shows "get_encryption sec =
    (if imaps \<and> starttls
     then Inl (Exn ImapError (ascii ''You cannot enable both starttls and imaps''))
     else Inr (if imaps then IMAPS else if starttls then STARTTLS else NONE))"
  using assms by (simp add: get_encryption_def)

theorem get_encryption_resolution_witness:
  "get_encryption [''imaps'' \<mapsto> ascii ''yes'', ''starttls'' \<mapsto> ascii ''True''] =
     Inl (Exn ImapError (ascii ''You cannot enable both starttls and imaps''))
   \<and> get_encryption [''imaps'' \<mapsto> ascii ''yes''] = Inr IMAPS
   \<and> get_encryption [''starttls'' \<mapsto> ascii ''on''] = Inr STARTTLS
   \<and> get_encryption Map.empty = Inr STARTTLS
   \<and> get_encryption [''starttls'' \<mapsto> ascii ''no''] = Inr NONE"
proof -
  have 1: "getboolean [''imaps'' \<mapsto> ascii ''yes'', ''starttls'' \<mapsto> ascii ''True'']
      ''imaps'' False = Inr True"
    and 2: "getboolean [''imaps'' \<mapsto> ascii ''yes'', ''starttls'' \<mapsto> ascii ''True'']
      ''starttls'' (\<not> True) = Inr True"
    by (simp_all add: getboolean_def lower_def)
  have 3: "getboolean [''imaps'' \<mapsto> ascii ''yes''] ''imaps'' False = Inr True"
    and 4: "getboolean [''imaps'' \<mapsto> ascii ''yes''] ''starttls'' (\<not> True) = Inr False"
    by (simp_all add: getboolean_def lower_def)
  have 5: "getboolean [''starttls'' \<mapsto> ascii ''on''] ''imaps'' False = Inr False"
    and 6: "getboolean [''starttls'' \<mapsto> ascii ''on''] ''starttls'' (\<not> False) = Inr True"
    by (simp_all add: getboolean_def lower_def)
  have 7: "getboolean Map.empty ''imaps'' False = Inr False"
    and 8: "getboolean Map.empty ''starttls'' (\<not> False) = Inr True"
    by (simp_all add: getboolean_def)
  have 9: "getboolean [''starttls'' \<mapsto> ascii ''no''] ''imaps'' False = Inr False"
    and 10: "getboolean [''starttls'' \<mapsto> ascii ''no''] ''starttls'' (\<not> False) = Inr False"
    by (simp_all add: getboolean_def lower_def)
  show ?thesis
    using get_encryption_resolution [OF 1 2] get_encryption_resolution [OF 3 4]
      get_encryption_resolution [OF 5 6] get_encryption_resolution [OF 7 8]
      get_encryption_resolution [OF 9 10]
    by simp
qed

section \<open>Secret resolution\<close>

lemma rstrip_is_prefix: "\<exists>ws. s = rstrip s @ ws \<and> list_all isspace ws"
proof -
  have "rev s = takeWhile isspace (rev s) @ dropWhile isspace (rev s)" by simp
  then have "s = rev (dropWhile isspace (rev s)) @ rev (takeWhile isspace (rev s))"
    by (metis rev_append rev_rev_ident)
  moreover have "list_all isspace (rev (takeWhile isspace (rev s)))"
    by (simp add: list_all_iff) (meson set_takeWhileD)
  ultimately show ?thesis unfolding rstrip_def by blast
qed

lemma rstrip_no_trailing_space: "rstrip s \<noteq> [] \<Longrightarrow> \<not> isspace (last (rstrip s))"
  unfolding rstrip_def by (simp add: last_rev hd_dropWhile)

lemma decode_secret: "decode (''secret'' @ [CHR 0x0A]) = Some (ascii ''secret'' @ [10])"
  by (simp add: decode_def)

lemma rstrip_secret: "rstrip (ascii ''secret'' @ [10]) = ascii ''secret''"
  by (simp add: rstrip_def isspace_def)

lemma py_str_127: "py_str 127 = ascii ''127''"
  by (simp add: py_str_def digits_of.simps)

text \<open>
  Claim C6. An option counts as set when its value is a non-empty string, which is how
  the code tests it. Secret resolution fails with \<^verbatim>\<open>ConfigError\<close> when both \<^verbatim>\<open>password\<close>
  and \<^verbatim>\<open>password_command\<close> are set, and fails with \<^verbatim>\<open>ConfigError\<close> when neither is set.
  When only the command is set and the subprocess exits non-zero, it fails with a
  \<^verbatim>\<open>ConfigError\<close> whose message ends with the exit code; when the subprocess exits with
  zero, the secret is the decoded standard output without its trailing white space (a
  prefix of the output, the rest of which is white space, and which does not end in white
  space), and output that is not UTF-8 leaves with \<^verbatim>\<open>UnicodeDecodeError\<close>. When only
  the password is set, it is the secret.
\<close>

theorem get_password_resolution:
  fixes run :: "str \<Rightarrow> CompletedProcess"
  shows
  "(truthy (sec ''password'') \<and> truthy (sec ''password_command'') \<longrightarrow>
      get_password run sec =
        Inl (Exn ConfigError (ascii ''password or password_command are mutually exclusive'')))
   \<and> (\<not> truthy (sec ''password'') \<and> \<not> truthy (sec ''password_command'') \<longrightarrow>
      get_password run sec =
        Inl (Exn ConfigError (ascii ''No imap password or password_command set'')))
   \<and> (\<not> truthy (sec ''password'') \<and> sec ''password_command'' = Some cmd \<and> cmd \<noteq> [] \<longrightarrow>
      get_password run sec =
        (if returncode (run cmd) \<noteq> 0 then
           Inl (Exn ConfigError
             (ascii ''Password command '' @ [39] @ cmd @ [39] @ ascii '' exited with '' @
              py_str (returncode (run cmd))))
         else case decode (stdout (run cmd)) of
                None \<Rightarrow> Inl (Exn UnicodeDecodeError [])
              | Some out \<Rightarrow> Inr (rstrip out)))
   \<and> (sec ''password'' = Some pw \<and> pw \<noteq> [] \<and> \<not> truthy (sec ''password_command'') \<longrightarrow>
      get_password run sec = Inr pw)
   \<and> (\<exists>ws. out = rstrip out @ ws \<and> list_all isspace ws)
   \<and> (rstrip out \<noteq> [] \<longrightarrow> \<not> isspace (last (rstrip out)))"
  using rstrip_is_prefix [of out] rstrip_no_trailing_space [of out]
  by (auto simp: get_password_def Let_def)

theorem get_password_resolution_witness:
  "get_password pass_show
     [''password'' \<mapsto> ascii ''secret'', ''password_command'' \<mapsto> ascii ''pass show mail''] =
     Inl (Exn ConfigError (ascii ''password or password_command are mutually exclusive''))
   \<and> get_password pass_show Map.empty =
     Inl (Exn ConfigError (ascii ''No imap password or password_command set''))
   \<and> get_password pass_show [''password_command'' \<mapsto> ascii ''false''] =
     Inl (Exn ConfigError (ascii ''Password command 'false' exited with 127''))
   \<and> get_password pass_show [''password_command'' \<mapsto> ascii ''pass show mail''] =
     Inr (ascii ''secret'')
   \<and> get_password pass_show [''password'' \<mapsto> ascii ''secret''] = Inr (ascii ''secret'')
   \<and> \<not> isspace (last (rstrip (ascii ''secret'' @ [10])))"
proof -
  have r1: "returncode (pass_show (ascii ''false'')) = 127"
    and r2: "returncode (pass_show (ascii ''pass show mail'')) = 0"
    and r3: "stdout (pass_show (ascii ''pass show mail'')) = ''secret'' @ [CHR 0x0A]"
    by (simp_all add: pass_show_def)
  have d: "decode (stdout (pass_show (ascii ''pass show mail''))) = Some (ascii ''secret'' @ [10])"
    unfolding r3 by (rule decode_secret)
  show ?thesis
    using get_password_resolution [where run = pass_show and sec =
        "[''password'' \<mapsto> ascii ''secret'', ''password_command'' \<mapsto> ascii ''pass show mail'']"]
      get_password_resolution [where run = pass_show and sec = Map.empty]
      get_password_resolution [where run = pass_show
        and sec = "[''password_command'' \<mapsto> ascii ''false'']" and cmd = "ascii ''false''"]
      get_password_resolution [where run = pass_show
        and sec = "[''password_command'' \<mapsto> ascii ''pass show mail'']"
        and cmd = "ascii ''pass show mail''"]
      get_password_resolution [where run = pass_show
        and sec = "[''password'' \<mapsto> ascii ''secret'']" and pw = "ascii ''secret''"
        and out = "ascii ''secret'' @ [10]"]
      rstrip_secret r1 r2 d py_str_127
    by (simp add: isspace_def)
qed

text \<open>
  Claim C10. Presence is tested by truthiness, not by the key: a section whose
  \<^verbatim>\<open>password\<close> is the empty string resolves its secret exactly as the same section without
  the \<^verbatim>\<open>password\<close> key does. With a (non-empty) \<^verbatim>\<open>password_command\<close> it does not raise
  the mutual-exclusion \<^verbatim>\<open>ConfigError\<close> but runs the command and uses its output; with no
  \<^verbatim>\<open>password_command\<close> it fails as if no secret were configured.
\<close>

theorem empty_password_counts_as_absent:
  fixes run :: "str \<Rightarrow> CompletedProcess"
  assumes "sec ''password'' = Some []"
  shows "get_password run sec = get_password run (sec(''password'' := None))
    \<and> (sec ''password_command'' = Some cmd \<and> cmd \<noteq> [] \<longrightarrow>
        get_password run sec \<noteq>
          Inl (Exn ConfigError (ascii ''password or password_command are mutually exclusive''))
      \<and> get_password run sec =
          (if returncode (run cmd) \<noteq> 0 then
             Inl (Exn ConfigError
               (ascii ''Password command '' @ [39] @ cmd @ [39] @ ascii '' exited with '' @
                py_str (returncode (run cmd))))
           else case decode (stdout (run cmd)) of
                  None \<Rightarrow> Inl (Exn UnicodeDecodeError [])
                | Some out \<Rightarrow> Inr (rstrip out)))
    \<and> (sec ''password_command'' = None \<longrightarrow>
        get_password run sec =
          Inl (Exn ConfigError (ascii ''No imap password or password_command set'')))"
proof -
  have 1: "get_password run sec = get_password run (sec(''password'' := None))"
    using assms by (simp add: get_password_def Let_def)
  have 2: "get_password run sec =
          (if returncode (run cmd) \<noteq> 0 then
             Inl (Exn ConfigError
               (ascii ''Password command '' @ [39] @ cmd @ [39] @ ascii '' exited with '' @
                py_str (returncode (run cmd))))
           else case decode (stdout (run cmd)) of
                  None \<Rightarrow> Inl (Exn UnicodeDecodeError [])
                | Some out \<Rightarrow> Inr (rstrip out))"
    if "sec ''password_command'' = Some cmd" "cmd \<noteq> []"
    using assms that by (simp add: get_password_def Let_def)
  have 3: "get_password run sec \<noteq>
          Inl (Exn ConfigError (ascii ''password or password_command are mutually exclusive''))"
    if "sec ''password_command'' = Some cmd" "cmd \<noteq> []"
    unfolding 2 [OF that] by (simp split: option.splits)
  have 4: "get_password run sec =
          Inl (Exn ConfigError (ascii ''No imap password or password_command set''))"
    if "sec ''password_command'' = None"
    using assms that by (simp add: get_password_def Let_def)
  show ?thesis using 1 2 3 4 by blast
qed

theorem empty_password_counts_as_absent_witness:
  "get_password pass_show
     [''password'' \<mapsto> [], ''password_command'' \<mapsto> ascii ''pass show mail''] =
     Inr (ascii ''secret'')
   \<and> get_password pass_show [''password'' \<mapsto> []] =
     Inl (Exn ConfigError (ascii ''No imap password or password_command set''))
   \<and> get_password pass_show [''password'' \<mapsto> []] = get_password pass_show Map.empty"
proof -
  have r2: "returncode (pass_show (ascii ''pass show mail'')) = 0"
    and r3: "stdout (pass_show (ascii ''pass show mail'')) = ''secret'' @ [CHR 0x0A]"
    by (simp_all add: pass_show_def)
  note both = empty_password_counts_as_absent [where run = pass_show
      and sec = "[''password'' \<mapsto> [], ''password_command'' \<mapsto> ascii ''pass show mail'']"
      and cmd = "ascii ''pass show mail''"]
  note alone = empty_password_counts_as_absent [where run = pass_show
      and sec = "[''password'' \<mapsto> []]"]
  have 1: "get_password pass_show
     [''password'' \<mapsto> [], ''password_command'' \<mapsto> ascii ''pass show mail''] =
     Inr (ascii ''secret'')"
    using both [THEN conjunct2, THEN conjunct1] r2 r3 decode_secret rstrip_secret by simp
  have 2: "get_password pass_show [''password'' \<mapsto> []] =
     Inl (Exn ConfigError (ascii ''No imap password or password_command set''))"
    using alone [THEN conjunct2, THEN conjunct2] by simp
  have 3: "get_password pass_show [''password'' \<mapsto> []] = get_password pass_show Map.empty"
    using alone [THEN conjunct1] by simp
  show ?thesis using 1 2 3 by blast
qed

section \<open>The retry loop\<close>

lemma timing_of_append [simp]: "timing_of (xs @ ys) = timing_of xs @ timing_of ys"
  by (simp add: timing_of_def)

lemma timing_of_connect:
  "timing_of (fst (connect config a)) = [Open (imapclass_of config) (host config) (port config)]"
  by (simp add: connect_def timing_of_def imapclass_of_def Let_def split: option.splits)

lemma no_select_in_connect: "filter is_select (fst (connect config a)) = []"
  by (simp add: connect_def Let_def split: option.splits)

text \<open>The three ways one iteration can go.\<close>

lemma loop_body_OSError:
  assumes "connect config a = (evs, Inl e)" "isinstance e OSError"
  shows "loop_body config a s =
    (Looping,
     \<lparr>backoff = min 120 (2 * max 1 (backoff s)),
      trace = trace s @ [Sleep (backoff s)] @ evs @
        [Print_stderr (ascii ''Could not connect to server: '' @ msg e @ ascii ''. Retry in '' @
           py_str (min 120 (2 * max 1 (backoff s))) @ ascii '' sec'')]\<rparr>)"
  using assms by (simp add: loop_body_def say_def Let_def)

lemma loop_body_other_error:
  assumes "connect config a = (evs, Inl e)" "\<not> isinstance e OSError"
  shows "loop_body config a s =
    (Raised e, \<lparr>backoff = backoff s, trace = trace s @ [Sleep (backoff s)] @ evs\<rparr>)"
  using assms by (simp add: loop_body_def say_def Let_def)

lemma loop_body_connected:
  assumes "connect config a = (evs, Inr u)"
  shows "loop_body config a s =
    (case command_error a of
       Some e \<Rightarrow>
         (Raised e,
          \<lparr>backoff = 0,
           trace = trace s @ [Sleep (backoff s)] @ evs @
             [Print_stdout (ascii ''connected''),
              Command (ascii ''NOTIFY SET'')
                (ascii ''(subscribed (FlagChange SubscriptionChange MessageNew MessageExpunge))'')]\<rparr>)
     | None \<Rightarrow>
         (Returned,
          \<lparr>backoff = 0,
           trace = trace s @ [Sleep (backoff s)] @ evs @
             [Print_stdout (ascii ''connected''),
              Command (ascii ''NOTIFY SET'')
                (ascii ''(subscribed (FlagChange SubscriptionChange MessageNew MessageExpunge))''),
              Select [client_socket a] 900,
              Print_stdout (if select_result a \<noteq> [] then ascii ''Got change''
                            else ascii ''Timeout'')]\<rparr>))"
  using assms by (simp add: loop_body_def say_def Let_def split: option.splits)

lemma wait_loop_append:
  "wait_loop config (xs @ ys) s =
     (case wait_loop config xs s of
        (Looping, s') \<Rightarrow> wait_loop config ys s'
      | (Returned, s') \<Rightarrow> (Returned, s')
      | (Raised e, s') \<Rightarrow> (Raised e, s'))"
proof (induction xs arbitrary: s)
  case Nil
  then show ?case by simp
next
  case (Cons a xs)
  obtain st s' where b: "loop_body config a s = (st, s')" by (cases "loop_body config a s")
  show ?case by (cases st) (simp_all add: b Cons)
qed

text \<open>The specification's sequence obeys the loop's update, starts as listed and stays
  at the cap.\<close>

lemma spec_backoff_Suc: "min 120 (2 * max 1 (spec_backoff k)) = spec_backoff (Suc k)"
proof (cases k)
  case 0
  then show ?thesis by (simp add: spec_backoff_def)
next
  case (Suc j)
  have "(1::int) \<le> 2 ^ k" by simp
  then show ?thesis by (simp add: spec_backoff_def Suc min_def max_def)
qed

lemma spec_backoff_prefix: "map spec_backoff [0..<10] = [0, 2, 4, 8, 16, 32, 64, 120, 120, 120]"
  by (simp add: spec_backoff_def upt_rec)

lemma spec_backoff_capped: "7 \<le> k \<Longrightarrow> spec_backoff k = 120"
proof -
  assume k: "7 \<le> k"
  then have "(2::int) ^ 7 \<le> 2 ^ k" by (intro power_increasing) simp_all
  then have "(120::int) \<le> 2 ^ k" by simp
  with k show ?thesis by (simp add: spec_backoff_def)
qed

text \<open>While every attempt fails with an \<^verbatim>\<open>OSError\<close> the loop goes on; after \<open>n\<close> failures
  the backoff is the \<open>n\<close>-th value of the sequence, and each attempt so far was preceded
  by a sleep of the backoff of its time.\<close>

lemma wait_loop_all_fail:
  assumes "\<forall>a\<in>set fails. \<exists>evs e. connect config a = (evs, Inl e) \<and> isinstance e OSError"
  shows "\<exists>s'. wait_for_change config fails = (Looping, s') \<and>
           backoff s' = spec_backoff (length fails) \<and>
           timing_of (trace s') =
             concat (map (\<lambda>k. [Sleep (spec_backoff k),
                               Open (imapclass_of config) (host config) (port config)])
                     [0..<length fails])"
  using assms
proof (induction fails rule: rev_induct)
  case Nil
  then show ?case by (simp add: wait_for_change_def spec_backoff_def timing_of_def)
next
  case (snoc a fails)
  then obtain s' where s': "wait_for_change config fails = (Looping, s')"
      "backoff s' = spec_backoff (length fails)"
      "timing_of (trace s') =
         concat (map (\<lambda>k. [Sleep (spec_backoff k),
                           Open (imapclass_of config) (host config) (port config)])
                 [0..<length fails])"
    by auto
  from snoc.prems obtain evs e where e: "connect config a = (evs, Inl e)" "isinstance e OSError"
    by auto
  have t: "timing_of evs = [Open (imapclass_of config) (host config) (port config)]"
    using timing_of_connect [of config a] by (simp add: e)
  have "wait_for_change config (fails @ [a]) = loop_body config a s'"
    using s'(1) unfolding wait_for_change_def
    by (simp add: wait_loop_append split: prod.splits status.splits)
  then show ?case
    using s'(2,3) t
    by (simp add: loop_body_OSError [OF e] spec_backoff_Suc) (simp add: timing_of_def)
qed

lemma connect_refused:
  "connect example_config refused =
     ([Open IMAP4 (ascii ''mail.example.com'') 143],
      Inl (Exn ConnectionRefusedError (ascii ''[Errno 111] Connection refused'')))"
  by (simp add: connect_def example_config_def refused_def accepted_def)

lemma connect_accepted:
  "connect example_config accepted =
     ([Open IMAP4 (ascii ''mail.example.com'') 143, Set_debug 0, Starttls,
       Login (ascii ''alice'') (ascii ''secret'')], Inr ())"
  by (simp add: connect_def example_config_def accepted_def)

lemma connect_quiet:
  "connect example_config quiet =
     ([Open IMAP4 (ascii ''mail.example.com'') 143, Set_debug 0, Starttls,
       Login (ascii ''alice'') (ascii ''secret'')], Inr ())"
  by (simp add: connect_def example_config_def accepted_def quiet_def)

lemma connect_rejected:
  "connect example_config rejected =
     ([Open IMAP4 (ascii ''mail.example.com'') 143, Set_debug 0, Starttls,
       Login (ascii ''alice'') (ascii ''secret'')],
      Inl (Exn IMAP4_error (ascii ''[AUTHENTICATIONFAILED] Authentication failed.'')))"
  by (simp add: connect_def example_config_def accepted_def rejected_def)

lemma refused_is_OSError:
  "\<forall>b\<in>set [refused]. \<exists>evs e. connect example_config b = (evs, Inl e) \<and> isinstance e OSError"
  by (simp add: connect_refused isinstance_def)

text \<open>
  Claim C1. In every run of the retry loop, as long as the connection attempts fail with
  an \<^verbatim>\<open>OSError\<close> the loop continues; the backoff starts at 0 and each such failure updates
  it to \<open>min 120 (2 * max 1 backoff)\<close>, so that after \<open>n\<close> consecutive failures it is the
  \<open>n\<close>-th value of the sequence 0, 2, 4, 8, 16, 32, 64, 120, 120, 120, ...; the sleeps and
  connection attempts alternate, every attempt coming right after a sleep of the backoff
  of that moment (0 for the first); and a successful connection resets the backoff to 0.
\<close>

theorem retry_backoff_schedule:
  assumes "\<forall>a\<in>set fails. \<exists>evs e. connect config a = (evs, Inl e) \<and> isinstance e OSError"
  shows "fst (wait_for_change config fails) = Looping
    \<and> backoff (snd (wait_for_change config fails)) = spec_backoff (length fails)
    \<and> timing_of (trace (snd (wait_for_change config fails))) =
        concat (map (\<lambda>k. [Sleep (spec_backoff k),
                          Open (imapclass_of config) (host config) (port config)])
                [0..<length fails])
    \<and> (\<forall>a\<in>set fails. backoff (snd (loop_body config a s)) = min 120 (2 * max 1 (backoff s)))
    \<and> ((\<exists>evs. connect config ok = (evs, Inr ())) \<longrightarrow>
         fst (wait_for_change config (fails @ ok # rest)) \<noteq> Looping
       \<and> backoff (snd (wait_for_change config (fails @ ok # rest))) = 0
       \<and> timing_of (trace (snd (wait_for_change config (fails @ ok # rest)))) =
           concat (map (\<lambda>k. [Sleep (spec_backoff k),
                             Open (imapclass_of config) (host config) (port config)])
                   [0..<Suc (length fails)]))
    \<and> map spec_backoff [0..<10] = [0, 2, 4, 8, 16, 32, 64, 120, 120, 120]
    \<and> (\<forall>k\<ge>7. spec_backoff k = 120)"
proof -
  from wait_loop_all_fail [OF assms] obtain s' where
    s': "wait_for_change config fails = (Looping, s')"
      "backoff s' = spec_backoff (length fails)"
      "timing_of (trace s') =
         concat (map (\<lambda>k. [Sleep (spec_backoff k),
                           Open (imapclass_of config) (host config) (port config)])
                 [0..<length fails])"
    by blast
  have step: "\<forall>a\<in>set fails. backoff (snd (loop_body config a s)) = min 120 (2 * max 1 (backoff s))"
  proof
    fix a assume "a \<in> set fails"
    with assms obtain evs e where "connect config a = (evs, Inl e)" "isinstance e OSError"
      by blast
    then show "backoff (snd (loop_body config a s)) = min 120 (2 * max 1 (backoff s))"
      by (simp add: loop_body_OSError)
  qed
  have success: "fst (wait_for_change config (fails @ ok # rest)) \<noteq> Looping
       \<and> backoff (snd (wait_for_change config (fails @ ok # rest))) = 0
       \<and> timing_of (trace (snd (wait_for_change config (fails @ ok # rest)))) =
           concat (map (\<lambda>k. [Sleep (spec_backoff k),
                             Open (imapclass_of config) (host config) (port config)])
                   [0..<Suc (length fails)])"
    if "\<exists>evs. connect config ok = (evs, Inr ())"
  proof -
    from that obtain evs where c: "connect config ok = (evs, Inr ())" by blast
    have t: "timing_of evs = [Open (imapclass_of config) (host config) (port config)]"
      using timing_of_connect [of config ok] by (simp add: c)
    have w: "wait_for_change config (fails @ ok # rest) = loop_body config ok s'"
      using s'(1) unfolding wait_for_change_def
      by (simp add: wait_loop_append loop_body_connected [OF c] split: option.splits)
    show ?thesis
      unfolding w using s'(2,3) t
      by (simp add: loop_body_connected [OF c] split: option.splits) (simp add: timing_of_def)
  qed
  show ?thesis
    using s' step success spec_backoff_prefix spec_backoff_capped by simp
qed

theorem retry_backoff_schedule_witness:
  "fst (wait_for_change example_config [refused, refused]) = Looping
   \<and> backoff (snd (wait_for_change example_config [refused, refused])) = 4
   \<and> timing_of (trace (snd (wait_for_change example_config [refused, refused]))) =
       [Sleep 0, Open IMAP4 (ascii ''mail.example.com'') 143,
        Sleep 2, Open IMAP4 (ascii ''mail.example.com'') 143]
   \<and> backoff (snd (loop_body example_config refused \<lparr>backoff = 64, trace = []\<rparr>)) = 120
   \<and> fst (wait_for_change example_config [refused, refused, accepted, refused]) \<noteq> Looping
   \<and> backoff (snd (wait_for_change example_config [refused, refused, accepted, refused])) = 0
   \<and> timing_of (trace (snd (wait_for_change example_config [refused, refused, accepted, refused]))) =
       [Sleep 0, Open IMAP4 (ascii ''mail.example.com'') 143,
        Sleep 2, Open IMAP4 (ascii ''mail.example.com'') 143,
        Sleep 4, Open IMAP4 (ascii ''mail.example.com'') 143]"
proof -
  have f: "\<forall>a\<in>set [refused, refused]. \<exists>evs e.
      connect example_config a = (evs, Inl e) \<and> isinstance e OSError"
    by (simp add: connect_refused isinstance_def)
  have c: "imapclass_of example_config = IMAP4" "host example_config = ascii ''mail.example.com''"
    "port example_config = 143"
    by (simp_all add: imapclass_of_def example_config_def)
  show ?thesis
    using retry_backoff_schedule [OF f, of "\<lparr>backoff = 64, trace = []\<rparr>" accepted "[refused]"]
    by (simp add: connect_accepted c spec_backoff_def upt_rec)
qed

section \<open>What leaves the loop, and the process\<close>

lemma main_config_error:
  assumes "read_configuration (subprocess_run env) (config_files env (config_path env)) = Inl e"
    and "isinstance e ConfigError"
  shows "main env = (Exit 1, [Print_stdout (ascii ''Error reading configuration: '' @ msg e)])"
  using assms by (simp add: main_def)

lemma main_configured:
  assumes "read_configuration (subprocess_run env) (config_files env (config_path env)) = Inr config"
  shows "fst (main env) =
    (case fst (wait_for_change config (attempts env)) of
       Returned \<Rightarrow> Exit 0 | Raised e \<Rightarrow> Uncaught e | Looping \<Rightarrow> Still_retrying)"
  using assms by (simp add: main_def split: prod.splits status.splits)

lemma example_env_configured:
  "read_configuration (subprocess_run (example_env [''imap'' \<mapsto> example_section] world))
     (config_files (example_env [''imap'' \<mapsto> example_section] world)
        (config_path (example_env [''imap'' \<mapsto> example_section] world))) = Inr example_config"
  using example_plain by (simp add: example_env_def)

text \<open>
  Claim C2. When connecting raises an exception \<open>e\<close>, the iteration continues the loop
  exactly if \<open>e\<close> is an \<^verbatim>\<open>OSError\<close> (of that class or a subclass) and otherwise lets \<open>e\<close>
  leave: after any number of retried failures, a failure that is not an \<^verbatim>\<open>OSError\<close>, such
  as the \<^verbatim>\<open>IMAP4.error\<close> of rejected credentials, leaves \<^verbatim>\<open>wait_for_change\<close> and, uncaught
  in \<^verbatim>\<open>main\<close>, ends the process.
\<close>

theorem only_OSError_is_retried:
  assumes "connect config a = (evs, Inl e)"
    and "\<forall>b\<in>set fails. \<exists>evs' e'. connect config b = (evs', Inl e') \<and> isinstance e' OSError"
  shows "fst (loop_body config a s) = (if isinstance e OSError then Looping else Raised e)
    \<and> (isinstance e OSError \<longrightarrow>
         wait_loop config (a # rest) s = wait_loop config rest (snd (loop_body config a s))
       \<and> fst (wait_for_change config (fails @ [a])) = Looping)
    \<and> (\<not> isinstance e OSError \<longrightarrow>
         fst (wait_for_change config (fails @ a # rest)) = Raised e
       \<and> (read_configuration (subprocess_run env) (config_files env (config_path env)) = Inr config
            \<and> attempts env = fails @ a # rest \<longrightarrow>
          fst (main env) = Uncaught e))
    \<and> \<not> isinstance (Exn IMAP4_error m) OSError"
proof -
  from wait_loop_all_fail [OF assms(2)] obtain s' where
    s': "wait_for_change config fails = (Looping, s')" by blast
  have w: "wait_for_change config (fails @ a # ys) = wait_loop config (a # ys) s'" for ys
    using s' unfolding wait_for_change_def by (simp add: wait_loop_append)
  have 1: "fst (loop_body config a s) = (if isinstance e OSError then Looping else Raised e)"
    using assms(1) by (simp add: loop_body_OSError loop_body_other_error)
  have 2: "wait_loop config (a # rest) s = wait_loop config rest (snd (loop_body config a s))
       \<and> fst (wait_for_change config (fails @ [a])) = Looping"
    if "isinstance e OSError"
    using that assms(1) by (simp add: w loop_body_OSError)
  have 3: "fst (wait_for_change config (fails @ a # rest)) = Raised e" if "\<not> isinstance e OSError"
    using that assms(1) by (simp add: w loop_body_other_error)
  have 4: "fst (main env) = Uncaught e"
    if "\<not> isinstance e OSError"
      "read_configuration (subprocess_run env) (config_files env (config_path env)) = Inr config"
      "attempts env = fails @ a # rest"
    using main_configured [OF that(2)] 3 [OF that(1)] by (simp add: that(3))
  have 5: "\<not> isinstance (Exn IMAP4_error m) OSError" by (simp add: isinstance_def)
  show ?thesis using 1 2 3 4 5 by blast
qed

theorem only_OSError_is_retried_witness:
  "fst (loop_body example_config refused \<lparr>backoff = 0, trace = []\<rparr>) = Looping
   \<and> fst (wait_for_change example_config [refused, refused]) = Looping
   \<and> fst (loop_body example_config rejected \<lparr>backoff = 0, trace = []\<rparr>) =
       Raised (Exn IMAP4_error (ascii ''[AUTHENTICATIONFAILED] Authentication failed.''))
   \<and> fst (wait_for_change example_config [refused, rejected, accepted]) =
       Raised (Exn IMAP4_error (ascii ''[AUTHENTICATIONFAILED] Authentication failed.''))
   \<and> fst (main (example_env [''imap'' \<mapsto> example_section] [refused, rejected, accepted])) =
       Uncaught (Exn IMAP4_error (ascii ''[AUTHENTICATIONFAILED] Authentication failed.''))"
proof -
  have a: "attempts (example_env [''imap'' \<mapsto> example_section] [refused, rejected, accepted]) =
      [refused] @ rejected # [accepted]"
    by (simp add: example_env_def)
  show ?thesis
    using only_OSError_is_retried [OF connect_refused refused_is_OSError,
        of "\<lparr>backoff = 0, trace = []\<rparr>"]
      only_OSError_is_retried [OF connect_rejected refused_is_OSError,
        of "\<lparr>backoff = 0, trace = []\<rparr>" "[accepted]"
        "example_env [''imap'' \<mapsto> example_section] [refused, rejected, accepted]"]
      example_env_configured [of "[refused, rejected, accepted]"] a
    by (simp add: isinstance_def)
qed

text \<open>
  Claim C7. Once a session is established and the notification command has returned, the
  iteration performs exactly one wait: one \<^verbatim>\<open>select\<close> on the session's socket with a
  timeout of 900 seconds. It prints \<^verbatim>\<open>Got change\<close> if \<^verbatim>\<open>select\<close> reports the socket
  readable and \<^verbatim>\<open>Timeout\<close> if it reports nothing (the timeout elapsed), and in either case
  the loop ends there: whatever the environment would answer to further attempts is never
  asked, \<^verbatim>\<open>wait_for_change\<close> returns and the process exits with code 0.
\<close>

theorem single_wait_cycle:
  assumes "connect config a = (evs, Inr ())" and "command_error a = None"
    and "\<forall>b\<in>set fails. \<exists>evs' e'. connect config b = (evs', Inl e') \<and> isinstance e' OSError"
  shows "wait_loop config (a # rest) s =
      (Returned,
       \<lparr>backoff = 0,
        trace = trace s @ [Sleep (backoff s)] @ evs @
          [Print_stdout (ascii ''connected''),
           Command (ascii ''NOTIFY SET'')
             (ascii ''(subscribed (FlagChange SubscriptionChange MessageNew MessageExpunge))''),
           Select [client_socket a] 900,
           Print_stdout (if select_result a \<noteq> [] then ascii ''Got change''
                         else ascii ''Timeout'')]\<rparr>)
    \<and> length (filter is_select (trace (snd (wait_loop config (a # rest) s)))) =
        Suc (length (filter is_select (trace s)))
    \<and> fst (wait_for_change config (fails @ a # rest)) = Returned
    \<and> (read_configuration (subprocess_run env) (config_files env (config_path env)) = Inr config
         \<and> attempts env = fails @ a # rest \<longrightarrow>
       fst (main env) = Exit 0)"
proof -
  have b: "loop_body config a t =
      (Returned,
       \<lparr>backoff = 0,
        trace = trace t @ [Sleep (backoff t)] @ evs @
          [Print_stdout (ascii ''connected''),
           Command (ascii ''NOTIFY SET'')
             (ascii ''(subscribed (FlagChange SubscriptionChange MessageNew MessageExpunge))''),
           Select [client_socket a] 900,
           Print_stdout (if select_result a \<noteq> [] then ascii ''Got change''
                         else ascii ''Timeout'')]\<rparr>)" for t
    using assms(2) by (simp add: loop_body_connected [OF assms(1)])
  have ns: "filter is_select evs = []"
    using no_select_in_connect [of config a] by (simp add: assms(1))
  from wait_loop_all_fail [OF assms(3)] obtain s' where
    s': "wait_for_change config fails = (Looping, s')" by blast
  have 3: "fst (wait_for_change config (fails @ a # rest)) = Returned"
    using s' unfolding wait_for_change_def by (simp add: wait_loop_append b)
  have 4: "fst (main env) = Exit 0"
    if "read_configuration (subprocess_run env) (config_files env (config_path env)) = Inr config"
      "attempts env = fails @ a # rest"
    using main_configured [OF that(1)] 3 by (simp add: that(2))
  show ?thesis
    using 3 4 by (simp add: b ns)
qed

theorem single_wait_cycle_witness:
  "wait_loop example_config [accepted, refused] \<lparr>backoff = 0, trace = []\<rparr> =
      (Returned,
       \<lparr>backoff = 0,
        trace =
          [Sleep 0, Open IMAP4 (ascii ''mail.example.com'') 143, Set_debug 0, Starttls,
           Login (ascii ''alice'') (ascii ''secret''),
           Print_stdout (ascii ''connected''),
           Command (ascii ''NOTIFY SET'')
             (ascii ''(subscribed (FlagChange SubscriptionChange MessageNew MessageExpunge))''),
           Select [3] 900,
           Print_stdout (ascii ''Got change'')]\<rparr>)
   \<and> stdout_of (trace (snd (wait_loop example_config [quiet, refused] \<lparr>backoff = 0, trace = []\<rparr>))) =
       [ascii ''connected'', ascii ''Timeout'']
   \<and> fst (wait_for_change example_config [refused, quiet, refused]) = Returned
   \<and> fst (main (example_env [''imap'' \<mapsto> example_section] [refused, accepted, refused])) = Exit 0"
proof -
  have a: "attempts (example_env [''imap'' \<mapsto> example_section] [refused, accepted, refused]) =
      [refused] @ accepted # [refused]"
    by (simp add: example_env_def)
  have ca: "command_error accepted = None" "client_socket accepted = 3" "select_result accepted = [3]"
    by (simp_all add: accepted_def)
  have cq: "command_error quiet = None" "client_socket quiet = 3" "select_result quiet = []"
    by (simp_all add: quiet_def accepted_def)
  show ?thesis
    using single_wait_cycle [OF connect_accepted ca(1) refused_is_OSError,
        of "[refused]" "\<lparr>backoff = 0, trace = []\<rparr>"
        "example_env [''imap'' \<mapsto> example_section] [refused, accepted, refused]"]
      single_wait_cycle [OF connect_quiet cq(1) refused_is_OSError,
        of "[refused]" "\<lparr>backoff = 0, trace = []\<rparr>"]
      example_env_configured [of "[refused, accepted, refused]"] a
    by (simp add: ca cq)
qed

text \<open>
  Claim C8. A configuration file without an \<^verbatim>\<open>imap\<close> section raises \<^verbatim>\<open>ConfigError\<close>; the
  process exits with code 1, but the message \<^verbatim>\<open>Error reading configuration: ...\<close> is
  printed on standard output, and nothing reaches standard error.
\<close>

theorem config_error_goes_to_stdout:
  "main (example_env Map.empty []) =
     (Exit 1, [Print_stdout (ascii ''Error reading configuration: No imap section found'')])
   \<and> stderr_of (snd (main (example_env Map.empty []))) = []
   \<and> stdout_of (snd (main (example_env Map.empty []))) =
       [ascii ''Error reading configuration: No imap section found'']"
proof -
  have "read_configuration (subprocess_run (example_env Map.empty []))
      (config_files (example_env Map.empty []) (config_path (example_env Map.empty []))) =
      Inl (Exn ConfigError (ascii ''No imap section found''))"
    by (simp add: read_configuration_def example_env_def)
  then have "main (example_env Map.empty []) =
     (Exit 1, [Print_stdout (ascii ''Error reading configuration: '' @
        msg (Exn ConfigError (ascii ''No imap section found'')))])"
    by (rule main_config_error) (simp add: isinstance_def)
  then show ?thesis by simp
qed

end
